theory Spec2Isabelle
  imports Main
begin

section \<open>JavaScript values used by the fetcher\<close>

text \<open>
  Timestamps and durations are JavaScript numbers holding whole milliseconds; they are
  modelled as \<open>int\<close> (doubles are exact on integers below \<open>2^53\<close>). The only
  non-integer the fetcher can produce is the \<open>NaN\<close> that \<open>new Date(s).getTime()\<close>
  returns for a string it cannot parse, so the expiry field alone ranges over
  \<open>jsnumber\<close>. \<open>null\<close> and \<open>undefined\<close> are \<open>None\<close>.
\<close>

datatype jsnumber = Num int | NaN

text \<open>JavaScript truthiness of a \<open>number | null\<close>: \<open>null\<close>, \<open>0\<close> and \<open>NaN\<close> are falsy.\<close>

fun truthy :: "jsnumber option \<Rightarrow> bool" where
  "truthy None = False"
| "truthy (Some NaN) = False"
| "truthy (Some (Num n)) = (n \<noteq> 0)"

fun truthyInt :: "int option \<Rightarrow> bool" where
  "truthyInt None = False"
| "truthyInt (Some n) = (n \<noteq> 0)"

text \<open>Truthiness of a \<open>string | null | undefined\<close>: \<open>null\<close> and the empty string are falsy.\<close>

fun truthyStr :: "string option \<Rightarrow> bool" where
  "truthyStr None = False"
| "truthyStr (Some s) = (s \<noteq> [])"

section \<open>HTTP transport, as the fetcher sees it\<close>

text \<open>
  Of the response headers the fetcher reads \<open>headers.get('ETag')\<close> and
  \<open>headers.get('Expires')\<close> only. A body the source treats as missing
  (\<open>!response.body\<close>) is \<open>None\<close>.
\<close>

record hdrs =
  etagHeader :: "string option"
  expiresHeader :: "string option"

record 'raw response =
  status :: int
  headers :: hdrs
  body :: "'raw option"

text \<open>
  What a \<open>catch\<close> can receive: the two errors \<open>fetch\<close> constructs itself, Angular's
  \<open>HttpErrorResponse\<close> (status and headers), and any other thrown value.
\<close>

datatype thrown =
    UrlNotSet
  | UnexpectedResponse int
  | HttpErrorResponse int hdrs
  | OtherError string

text \<open>The awaited \<open>httpClient.get\<close> either resolves with a response or rejects.\<close>

datatype 'raw outcome = Resolved "'raw response" | Rejected thrown

text \<open>
  One run of an asynchronous method against its environment: the clock before the
  request, the answer of the transport, the clock once the answer is there. All
  \<open>Date.now()\<close> reads of one synchronous stretch see the same instant.
\<close>

record 'raw world =
  now :: int
  reply :: "'raw outcome"
  nowAfter :: int

text \<open>
  The calls the fetcher makes on its collaborators, in order:
  \<open>loadingSubject.next\<close>, \<open>httpClient.get\<close>, \<open>dataSubject.next\<close> and
  \<open>dataSubject.error\<close>.
\<close>

datatype 'v event =
    Loading bool
  | HttpGet string "(string \<times> string) list"
  | DataNext 'v
  | DataError thrown

section \<open>FetcherWithEtag\<close>

text \<open>The constructor's collaborators; \<open>parseDate s\<close> is \<open>new Date(s).getTime()\<close>.\<close>

record ('raw, 'v) config =
  converter :: "'raw \<Rightarrow> thrown + 'v"
  isEqual :: "'v \<Rightarrow> 'v \<Rightarrow> bool"
  authHeaders :: "(string \<times> string) list"
  parseDate :: "string \<Rightarrow> jsnumber"

text \<open>
  The fields of the class. \<open>cachedValue\<close> is the field \<open>value\<close>; \<open>pollingTimeout\<close>
  holds the delay of the armed timer.
\<close>

record 'v engine =
  url :: string
  etag :: "string option"
  expires :: "jsnumber option"
  lastFetchTimestamp :: "int option"
  cachedValue :: "'v option"
  pollingTimeout :: "int option"
  refreshInterval :: "int option"
  fetchRefreshesWithoutInterval :: bool

definition newFetcher :: "string \<Rightarrow> int option \<Rightarrow> bool \<Rightarrow> 'v engine" where
  "newFetcher u ri frwi =
     \<lparr>url = u, etag = None, expires = None, lastFetchTimestamp = None,
      cachedValue = None, pollingTimeout = None, refreshInterval = ri,
      fetchRefreshesWithoutInterval = frwi\<rparr>"

definition getValue :: "'v engine \<Rightarrow> 'v option" where
  "getValue s = cachedValue s"

text \<open>
  \<open>getRefreshIntervalInMilliseconds\<close>, with \<open>Date.now()\<close> as argument. The local
  \<open>interval\<close> is assigned up to twice; \<open>interval1\<close> is its value after the expiry
  test and \<open>interval2\<close> after the refresh-interval test.
\<close>

definition getRefreshIntervalInMilliseconds :: "int \<Rightarrow> 'v engine \<Rightarrow> int option" where
  "getRefreshIntervalInMilliseconds t s =
     (let interval1 =
            (case expires s of
               Some (Num e) \<Rightarrow> if e \<noteq> 0 \<and> e > t then e - t else 0
             | _ \<Rightarrow> 0);
          interval2 =
            (case (lastFetchTimestamp s, refreshInterval s) of
               (Some l, Some r) \<Rightarrow>
                 if l \<noteq> 0 \<and> r \<noteq> 0 \<and> l + r > t
                 then (if interval1 = 0 \<or> interval1 > l + r - t then l + r - t else interval1)
                 else interval1
             | _ \<Rightarrow> interval1);
          isInvalidInterval =
            (interval2 = 0 \<and> cachedValue s \<noteq> None \<and> \<not> truthy (expires s)
             \<and> \<not> truthyInt (refreshInterval s))
      in if isInvalidInterval then None else Some interval2)"

text \<open>
  The freshness rule in the specification's words, for comparison with the function
  above. The three parameters say when an expiry counts as configured, when the fetch
  timestamp counts as set, and when a refresh interval counts as configured (set):
  \<open>expiryRemaining\<close> is \<open>expiresAt - now\<close> when \<open>expiresAt > now\<close>;
  \<open>refreshRemaining\<close> is \<open>lastFetchTimestamp + refreshInterval - now\<close> when both are
  set and the difference is positive; the result is undefined when a value is known
  and neither an expiry nor a refresh interval is configured, otherwise the smaller of
  the present durations, and 0 when neither is present.
\<close>

definition freshnessRule ::
  "(jsnumber option \<Rightarrow> bool) \<Rightarrow> (int option \<Rightarrow> bool) \<Rightarrow> (int option \<Rightarrow> bool)
     \<Rightarrow> int \<Rightarrow> 'v engine \<Rightarrow> int option" where
  "freshnessRule expirySet timestampSet intervalSet t s =
     (let expiryRemaining =
            (case expires s of
               Some (Num e) \<Rightarrow> if expirySet (expires s) \<and> e > t then Some (e - t) else None
             | _ \<Rightarrow> None);
          refreshRemaining =
            (case (lastFetchTimestamp s, refreshInterval s) of
               (Some l, Some r) \<Rightarrow>
                 if timestampSet (Some l) \<and> intervalSet (Some r) \<and> l + r - t > 0
                 then Some (l + r - t) else None
             | _ \<Rightarrow> None)
      in if cachedValue s \<noteq> None \<and> \<not> expirySet (expires s) \<and> \<not> intervalSet (refreshInterval s)
         then None
         else Some (case (expiryRemaining, refreshRemaining) of
                      (Some a, Some b) \<Rightarrow> min a b
                    | (Some a, None) \<Rightarrow> a
                    | (None, Some b) \<Rightarrow> b
                    | (None, None) \<Rightarrow> 0))"

text \<open>
  The literal reading: an expiry is configured when \<open>expiresAt\<close> is a timestamp (an
  unparsable header counts as no expiry), a number is set when it is not null.
\<close>

fun isTimestamp :: "jsnumber option \<Rightarrow> bool" where
  "isTimestamp (Some (Num e)) = True"
| "isTimestamp _ = False"

fun isSet :: "int option \<Rightarrow> bool" where
  "isSet (Some n) = True"
| "isSet None = False"

text \<open>\<open>createExpires\<close>: a missing or empty header gives \<open>null\<close>, any other string what
  \<open>Date\<close> makes of it.\<close>

definition createExpires :: "('raw, 'v) config \<Rightarrow> string option \<Rightarrow> jsnumber option" where
  "createExpires cfg expiresString =
     (case expiresString of
        None \<Rightarrow> None
      | Some x \<Rightarrow> if x = [] then None else Some (parseDate cfg x))"

text \<open>
  \<open>HttpHeaders.set(name, value)\<close>: header names compare without regard to case; an
  existing header keeps its place and its spelling and gets the new value, a new one is
  added. A header set is a list of names, distinct up to case, each with one value.
\<close>

definition lowerChar :: "char \<Rightarrow> char" where
  "lowerChar c =
     (let n = (of_char c :: nat) in if 65 \<le> n \<and> n \<le> 90 then char_of (n + 32) else c)"

fun setHeader :: "string \<Rightarrow> string \<Rightarrow> (string \<times> string) list \<Rightarrow> (string \<times> string) list" where
  "setHeader name v [] = [(name, v)]"
| "setHeader name v ((k, x) # hs) =
     (if map lowerChar k = map lowerChar name then (k, v) # hs
      else (k, x) # setHeader name v hs)"

text \<open>\<open>getHeaders\<close>: \<open>authHeaders.set('If-None-Match', etag)\<close> when an etag is held.\<close>

definition getHeaders :: "('raw, 'v) config \<Rightarrow> 'v engine \<Rightarrow> (string \<times> string) list" where
  "getHeaders cfg s =
     (if \<not> truthyStr (etag s) then authHeaders cfg
      else (case etag s of
              Some e \<Rightarrow> setHeader ''If-None-Match'' e (authHeaders cfg)
            | None \<Rightarrow> authHeaders cfg))"

text \<open>
  \<open>fetch\<close>. The result is what the promise settles with (\<open>Inl\<close>: rejected), the
  fields afterwards, and the calls made. A rejected \<open>httpClient.get\<close> leaves the
  method at the \<open>await\<close>: nothing after it runs. \<open>this.value!\<close> is the field as it
  is, possibly \<open>undefined\<close>.
\<close>

definition fetch ::
  "('raw, 'v) config \<Rightarrow> 'raw world \<Rightarrow> 'v engine \<Rightarrow> (thrown + 'v option) \<times> 'v engine \<times> 'v event list" where
  "fetch cfg w s =
     (let interval = getRefreshIntervalInMilliseconds (now w) s in
      if interval = None \<and> \<not> fetchRefreshesWithoutInterval s then (Inr (cachedValue s), s, [])
      else if (case interval of None \<Rightarrow> 0 | Some i \<Rightarrow> i) > 0 then (Inr (cachedValue s), s, [])
      else if url s = [] then (Inl UrlNotSet, s, [])
      else
        (let request = [Loading True, HttpGet (url s) (getHeaders cfg s)] in
         case reply w of
           Rejected e \<Rightarrow> (Inl e, s, request)
         | Resolved r \<Rightarrow>
             if status r \<noteq> 200 \<and> status r \<noteq> 304
             then (Inl (UnexpectedResponse (status r)), s, request @ [Loading False])
             else
               (let s1 = s\<lparr>etag := etagHeader (headers r),
                            lastFetchTimestamp := Some (nowAfter w),
                            expires := createExpires cfg (expiresHeader (headers r))\<rparr>
                in if status r = 304 then (Inr (cachedValue s1), s1, request @ [Loading False])
                   else
                     (case body r of
                        None \<Rightarrow> (Inr (cachedValue s1), s1, request @ [Loading False])
                      | Some b \<Rightarrow>
                          (case converter cfg b of
                             Inl e \<Rightarrow> (Inl e, s1, request @ [Loading False])
                           | Inr newValue \<Rightarrow>
                               if (case cachedValue s1 of
                                     None \<Rightarrow> True
                                   | Some old \<Rightarrow> \<not> isEqual cfg old newValue)
                               then (Inr (Some newValue), s1\<lparr>cachedValue := Some newValue\<rparr>,
                                     request @ [Loading False, DataNext newValue])
                               else (Inr (cachedValue s1), s1, request @ [Loading False]))))))"

text \<open>
  \<open>refreshData\<close>: \<open>fetch\<close> under \<open>try\<close>/\<open>catch\<close>. It settles without a value and
  never rejects, so the model returns the fields and the calls.
\<close>

definition refreshData ::
  "('raw, 'v) config \<Rightarrow> 'raw world \<Rightarrow> 'v engine \<Rightarrow> 'v engine \<times> 'v event list" where
  "refreshData cfg w s =
     (case fetch cfg w s of
        (Inr v, s', evs) \<Rightarrow> (s', evs)
      | (Inl e, s', evs) \<Rightarrow>
          (case e of
             HttpErrorResponse st hs \<Rightarrow>
               if st \<noteq> 304 then (s', evs @ [DataError e])
               else (s'\<lparr>etag := etagHeader hs,
                        lastFetchTimestamp := Some (nowAfter w),
                        expires := (case expiresHeader hs of
                                      None \<Rightarrow> None
                                    | Some x \<Rightarrow> if x = [] then None else Some (parseDate cfg x))\<rparr>,
                     evs)
           | _ \<Rightarrow> (s', evs)))"

definition clearPollingTimeout :: "'v engine \<Rightarrow> 'v engine" where
  "clearPollingTimeout s = (if pollingTimeout s = None then s else s\<lparr>pollingTimeout := None\<rparr>)"

text \<open>
  \<open>setupPollingTimeout\<close>. The \<open>refreshData()\<close> it starts without awaiting is run to
  its end here.
\<close>

definition setupPollingTimeout ::
  "('raw, 'v) config \<Rightarrow> 'raw world \<Rightarrow> 'v engine \<Rightarrow> 'v engine \<times> 'v event list" where
  "setupPollingTimeout cfg w s =
     (case getRefreshIntervalInMilliseconds (now w) s of
        None \<Rightarrow> refreshData cfg w (s\<lparr>pollingTimeout := None\<rparr>)
      | Some interval \<Rightarrow> (s\<lparr>pollingTimeout := Some interval\<rparr>, []))"

text \<open>
  \<open>onPollingTimeout\<close>: \<open>observedBefore\<close> and \<open>observedAfter\<close> are
  \<open>dataSubject.observed\<close> before and after the awaited \<open>refreshData\<close>; \<open>w2\<close> is the
  environment of the re-arming.
\<close>

definition onPollingTimeout ::
  "('raw, 'v) config \<Rightarrow> 'raw world \<Rightarrow> 'raw world \<Rightarrow> bool \<Rightarrow> bool \<Rightarrow> 'v engine
     \<Rightarrow> 'v engine \<times> 'v event list" where
  "onPollingTimeout cfg w w2 observedBefore observedAfter s =
     (if \<not> observedBefore then (s\<lparr>pollingTimeout := None\<rparr>, [])
      else (case refreshData cfg w s of
              (s1, evs) \<Rightarrow>
                if \<not> observedAfter then (s1\<lparr>pollingTimeout := None\<rparr>, evs)
                else (case setupPollingTimeout cfg w2 s1 of
                        (s2, evs2) \<Rightarrow> (s2, evs @ evs2))))"

text \<open>The assignments \<open>reset\<close> starts with, before it re-arms the timer or fetches.\<close>

definition resetFields :: "string option \<Rightarrow> 'v engine \<Rightarrow> 'v engine" where
  "resetFields newUrl s =
     (let s1 = s\<lparr>etag := None, expires := None, lastFetchTimestamp := None\<rparr> in
      case newUrl of
        None \<Rightarrow> s1
      | Some u \<Rightarrow> if u \<noteq> [] \<and> u \<noteq> url s1 then s1\<lparr>cachedValue := None, url := u\<rparr> else s1)"

text \<open>
  \<open>reset\<close>; \<open>isObserved\<close> is \<open>dataSubject.observed\<close>. An armed timer's handle is
  truthy.
\<close>

definition reset ::
  "('raw, 'v) config \<Rightarrow> 'raw world \<Rightarrow> bool \<Rightarrow> string option \<Rightarrow> 'v engine
     \<Rightarrow> (thrown + unit) \<times> 'v engine \<times> 'v event list" where
  "reset cfg w isObserved newUrl s =
     (let s1 = resetFields newUrl s in
      if pollingTimeout s1 \<noteq> None
      then (case setupPollingTimeout cfg w (clearPollingTimeout s1) of
              (s2, evs) \<Rightarrow> (Inr (), s2, evs))
      else if isObserved
      then (case fetch cfg w s1 of
              (Inl e, s2, evs) \<Rightarrow> (Inl e, s2, evs)
            | (Inr v, s2, evs) \<Rightarrow> (Inr (), s2, evs))
      else (Inr (), s1, []))"

section \<open>PollingSubject\<close>

text \<open>
  \<open>PollingSubject\<close> extends the \<open>Subject\<close> of rxjs 7.8.1, which is library code
  outside this repository. Of the base class the model keeps what the subclass relies
  on: the observer list and the flags \<open>closed\<close>, \<open>isStopped\<close> and \<open>hasError\<close>;
  \<open>observed\<close> is \<open>observers.length > 0\<close>; subscribing to a closed subject throws
  before \<open>_subscribe\<close> is reached; the inherited \<open>_subscribe\<close> hands a stopped
  subject's error or completion to the newcomer without admitting it, and otherwise
  appends the subscriber and returns a subscription whose teardown removes that
  subscriber from the list; the inherited \<open>unsubscribe()\<close> closes the subject and
  drops all observers.
\<close>

record 'o subject =
  observers :: "'o list"
  closed :: bool
  isStopped :: bool
  hasError :: bool

text \<open>What a run of the subject does to the outside: the two callbacks, and deliveries.\<close>

datatype ('o, 'v) signal =
    StartPolling
  | EndPolling
  | Deliver 'o 'v
  | DeliverError 'o
  | DeliverComplete 'o
  | ThrowUnsubscribed

definition newSubject :: "'o subject" where
  "newSubject = \<lparr>observers = [], closed = False, isStopped = False, hasError = False\<rparr>"

definition observed :: "'o subject \<Rightarrow> bool" where
  "observed sb = (observers sb \<noteq> [])"

text \<open>
  A subscription, as it reaches \<open>PollingSubject._subscribe\<close>: the base class refuses a
  closed subject first, and only then is \<open>_subscribe\<close> run. \<open>current\<close> is what
  \<open>getValue()\<close> returns.
\<close>

definition subscribe :: "'v option \<Rightarrow> 'o \<Rightarrow> 'o subject \<Rightarrow> 'o subject \<times> ('o, 'v) signal list" where
  "subscribe current subscriber sb =
     (if closed sb then (sb, [ThrowUnsubscribed])
      else
        (let started = (if \<not> observed sb then [StartPolling] else []) in
         if hasError sb then (sb, started @ [DeliverError subscriber])
         else if isStopped sb then (sb, started @ [DeliverComplete subscriber])
         else (sb\<lparr>observers := observers sb @ [subscriber]\<rparr>,
               started @ (case current of None \<Rightarrow> [] | Some v \<Rightarrow> [Deliver subscriber v]))))"

text \<open>
  A subscriber unsubscribing: the teardown of the subscription that \<open>_subscribe\<close>
  returned. It is base-class code and runs nothing of \<open>PollingSubject\<close>.
\<close>

definition teardown :: "'o \<Rightarrow> 'o subject \<Rightarrow> 'o subject \<times> ('o, 'v) signal list" where
  "teardown subscriber sb = (sb\<lparr>observers := remove1 subscriber (observers sb)\<rparr>, [])"

text \<open>\<open>PollingSubject.unsubscribe\<close>: the subject itself is unsubscribed.\<close>

definition unsubscribe :: "'o subject \<Rightarrow> 'o subject \<times> ('o, 'v) signal list" where
  "unsubscribe sb =
     (let sb1 = sb\<lparr>observers := [], closed := True, isStopped := True\<rparr> in
      (sb1, if \<not> observed sb1 then [EndPolling] else []))"

datatype 'o operation = Subscribe 'o | Teardown 'o | Unsubscribe

fun perform :: "'v option \<Rightarrow> 'o operation \<Rightarrow> 'o subject \<Rightarrow> 'o subject \<times> ('o, 'v) signal list" where
  "perform current (Subscribe subscriber) sb = subscribe current subscriber sb"
| "perform current (Teardown subscriber) sb = teardown subscriber sb"
| "perform current Unsubscribe sb = unsubscribe sb"

fun performAll ::
  "'v option \<Rightarrow> 'o operation list \<Rightarrow> 'o subject \<Rightarrow> 'o subject \<times> ('o, 'v) signal list" where
  "performAll current [] sb = (sb, [])"
| "performAll current (x # xs) sb =
     (case perform current x sb of
        (sb1, out1) \<Rightarrow>
          (case performAll current xs sb1 of
             (sb2, out2) \<Rightarrow> (sb2, out1 @ out2)))"

section \<open>Local data loader\<close>

text \<open>
  Identifiers are numbers or strings. Used as a property key a number becomes its
  decimal string, so \<open>1\<close> and \<open>'1'\<close> name the same property. Number identifiers are
  taken to be integers.
\<close>

datatype ident = IdNum int | IdStr string

function natToString :: "nat \<Rightarrow> string" where
  "natToString n =
     (if n < 10 then [''0123456789'' ! n]
      else natToString (n div 10) @ [''0123456789'' ! (n mod 10)])"
  by pat_completeness auto
termination
  by (relation "measure (\<lambda>n. n)") auto

fun toPropertyKey :: "ident \<Rightarrow> string" where
  "toPropertyKey (IdStr x) = x"
| "toPropertyKey (IdNum i) =
     (if i < 0 then CHR ''-'' # natToString (nat (- i)) else natToString (nat i))"

text \<open>
  The object that \<open>createById\<close> fills starts as \<open>{}\<close>: it has own properties and a
  prototype. \<open>proto\<close> is \<open>None\<close> while the prototype is \<open>Object.prototype\<close> and
  \<open>Some e\<close> once the item \<open>e\<close> has been installed as prototype. Items are ordinary
  writable objects whose own property names \<open>fieldsOf\<close> lists and whose prototype is
  \<open>Object.prototype\<close>.
\<close>

record 'i jsobject =
  own :: "string \<rightharpoonup> 'i"
  proto :: "'i option"

definition emptyObject :: "'i jsobject" where
  "emptyObject = \<lparr>own = Map.empty, proto = None\<rparr>"

text \<open>The data properties every object inherits from \<open>Object.prototype\<close>.\<close>

definition objectPrototypeMembers :: "string list" where
  "objectPrototypeMembers =
     [''constructor'', ''__defineGetter__'', ''__defineSetter__'', ''hasOwnProperty'',
      ''__lookupGetter__'', ''__lookupSetter__'', ''isPrototypeOf'',
      ''propertyIsEnumerable'', ''toString'', ''valueOf'', ''toLocaleString'']"

text \<open>
  \<open>map[key] = entity\<close>: the key \<open>__proto__\<close> reaches the setter inherited from
  \<open>Object.prototype\<close>, which makes the entity the prototype of the object and creates
  no property; every other key creates or overwrites an own property.
\<close>

definition assign :: "'i jsobject \<Rightarrow> string \<Rightarrow> 'i \<Rightarrow> 'i jsobject" where
  "assign obj key entity =
     (if key = ''__proto__'' then obj\<lparr>proto := Some entity\<rparr>
      else obj\<lparr>own := (own obj)(key \<mapsto> entity)\<rparr>)"

text \<open>
  What \<open>obj[key]\<close> can yield: an item stored in the object (or installed as its
  prototype and read back through \<open>__proto__\<close>), a field of the item installed as
  prototype, a member of \<open>Object.prototype\<close>, \<open>Object.prototype\<close> itself; \<open>None\<close> is
  \<open>undefined\<close>.
\<close>

datatype 'i loaded = Entity 'i | FieldOf 'i string | Builtin string | ObjectPrototype

definition getProperty :: "('i \<Rightarrow> string list) \<Rightarrow> 'i jsobject \<Rightarrow> string \<Rightarrow> 'i loaded option" where
  "getProperty fieldsOf obj key =
     (case own obj key of
        Some entity \<Rightarrow> Some (Entity entity)
      | None \<Rightarrow>
          (case proto obj of
             Some p \<Rightarrow>
               if key \<in> set (fieldsOf p) then Some (FieldOf p key)
               else if key = ''__proto__'' then Some (Entity p)
               else if key \<in> set objectPrototypeMembers then Some (Builtin key)
               else None
           | None \<Rightarrow>
               if key = ''__proto__'' then Some ObjectPrototype
               else if key \<in> set objectPrototypeMembers then Some (Builtin key)
               else None))"

text \<open>
  \<open>createById\<close>: \<open>reduce\<close> runs left to right over the array, starting from \<open>{}\<close>,
  and assigns \<open>map[entity[idKey]] = entity\<close>. \<open>idKey\<close> is the accessor of the
  identifier field.
\<close>

definition createById :: "'i list \<Rightarrow> ('i \<Rightarrow> ident) \<Rightarrow> 'i jsobject" where
  "createById entities idKey =
     foldl (\<lambda>m entity. assign m (toPropertyKey (idKey entity)) entity) emptyObject entities"

definition dataLoaderBatchFromIds ::
  "('i \<Rightarrow> string list) \<Rightarrow> ident list \<Rightarrow> 'i list \<Rightarrow> ('i \<Rightarrow> ident) \<Rightarrow> 'i loaded option list" where
  "dataLoaderBatchFromIds fieldsOf ids entities idKey =
     (let lookupMap = createById entities idKey
      in map (\<lambda>i. getProperty fieldsOf lookupMap (toPropertyKey i)) ids)"

datatype 'i localDataLoader = LocalDataLoader "'i jsobject"

text \<open>\<open>load(id)\<close> is \<open>this.byId[id]\<close>.\<close>

fun load :: "('i \<Rightarrow> string list) \<Rightarrow> 'i localDataLoader \<Rightarrow> ident \<Rightarrow> 'i loaded option" where
  "load fieldsOf (LocalDataLoader m) key = getProperty fieldsOf m (toPropertyKey key)"

text \<open>
  \<open>LocalDataLoaderEtagService\<close>: the payload with its \<open>etag\<close> field and item array, the
  converted value \<open>{...raw, byId}\<close>, and the default loader built from \<open>byId\<close>.
\<close>

record 'i rawData =
  dataEtag :: string
  items :: "'i list"

record 'i data = "'i rawData" +
  byId :: "'i jsobject"

definition serviceConverter :: "('i \<Rightarrow> ident) \<Rightarrow> 'i rawData \<Rightarrow> 'i data" where
  "serviceConverter idKey raw =
     \<lparr>dataEtag = dataEtag raw, items = items raw, byId = createById (items raw) idKey\<rparr>"

definition serviceIsEqual :: "'i data \<Rightarrow> 'i data \<Rightarrow> bool" where
  "serviceIsEqual currentValue newValue = (dataEtag currentValue = dataEtag newValue)"

definition createLocalDataLoader :: "'i jsobject \<Rightarrow> 'i localDataLoader" where
  "createLocalDataLoader m = LocalDataLoader m"

text \<open>
  What the upstream change stream does: it emits a value, or it fails (and is over).
\<close>

datatype 'd notification = Emitted 'd | Failed

text \<open>
  \<open>dataLoader$\<close>: every upstream emission is mapped to a loader over its \<open>byId\<close>; an
  upstream failure is answered by \<open>catchError\<close> with one loader over \<open>{}\<close>, after
  which the stream is complete.
\<close>

fun dataLoaderEmissions :: "'i data notification list \<Rightarrow> 'i localDataLoader list" where
  "dataLoaderEmissions [] = []"
| "dataLoaderEmissions (Emitted d # rest) = createLocalDataLoader (byId d) # dataLoaderEmissions rest"
| "dataLoaderEmissions (Failed # rest) = [createLocalDataLoader emptyObject]"

text \<open>
  \<open>shareReplay\<close> with buffer size 1 replays the latest loader: the loader a consumer
  holds after the given upstream notifications, if any.
\<close>

definition latestDataLoader :: "'i data notification list \<Rightarrow> 'i localDataLoader option" where
  "latestDataLoader upstream =
     (case dataLoaderEmissions upstream of
        [] \<Rightarrow> None
      | loaders \<Rightarrow> Some (last loaders))"

text \<open>
  \<open>load(key)\<close> on the overlay after the fetcher passed on the payloads (or the
  failure) \<open>upstream\<close> in this order; absent while there is no loader yet.
\<close>

definition overlayLoad ::
  "('i \<Rightarrow> string list) \<Rightarrow> ('i \<Rightarrow> ident) \<Rightarrow> 'i rawData notification list \<Rightarrow> ident
     \<Rightarrow> 'i loaded option" where
  "overlayLoad fieldsOf idKey upstream key =
     (case latestDataLoader (map (map_notification (serviceConverter idKey)) upstream) of
        None \<Rightarrow> None
      | Some loader \<Rightarrow> load fieldsOf loader key)"

section \<open>Sample runs\<close>

text \<open>
  A fetcher over string payloads whose value is the payload's length; the payload
  \<open>broken\<close> makes the converter throw; one date string parses (to 5000 ms), every other
  string is unparsable.
\<close>

definition demoConfig :: "(string, nat) config" where
  "demoConfig =
     \<lparr>converter = (\<lambda>raw. if raw = ''broken'' then Inl (OtherError ''cannot convert'')
                          else Inr (length raw)),
      isEqual = (\<lambda>a b. a = b),
      authHeaders = [],
      parseDate = (\<lambda>x. if x = ''Thu, 01 Jan 1970 00:00:05 GMT'' then Num 5000 else NaN)\<rparr>"

definition respond :: "int \<Rightarrow> string option \<Rightarrow> string option \<Rightarrow> 'raw option \<Rightarrow> 'raw outcome" where
  "respond st e x b =
     Resolved \<lparr>status = st, headers = \<lparr>etagHeader = e, expiresHeader = x\<rparr>, body = b\<rparr>"

text \<open>
  A fetcher with refresh interval 100 ms that accepted the value 3 under etag \<open>v1\<close> at
  time 1000: stale from time 1100 on.
\<close>

definition staleEngine :: "nat engine" where
  "staleEngine =
     (newFetcher ''https://api.example.com/data'' (Some 100) False)
       \<lparr>etag := Some ''v1'', lastFetchTimestamp := Some 1000, cachedValue := Some 3\<rparr>"

text \<open>Items for the overlay: pairs of identifier and name, with the fields \<open>id\<close> and \<open>name\<close>.\<close>

definition demoFields :: "ident \<times> string \<Rightarrow> string list" where
  "demoFields item = [''id'', ''name'']"

text \<open>A 304 arrives as a response or, through Angular's client, as a rejection.\<close>

fun is304 :: "'raw outcome \<Rightarrow> bool" where
  "is304 (Resolved r) = (status r = 304)"
| "is304 (Rejected (HttpErrorResponse st hs)) = (st = 304)"
| "is304 (Rejected _) = False"

section \<open>Helper facts\<close>

lemmas run_defs =
  demoConfig_def staleEngine_def respond_def newFetcher_def fetch_def
  getRefreshIntervalInMilliseconds_def getHeaders_def createExpires_def Let_def

lemma createExpires_converter [simp]:
  "createExpires (cfg\<lparr>converter := c\<rparr>) h = createExpires cfg h"
  by (simp add: createExpires_def split: option.splits)

lemma getHeaders_converter [simp]:
  "getHeaders (cfg\<lparr>converter := c\<rparr>) s = getHeaders cfg s"
  by (simp add: getHeaders_def split: option.splits)

lemma fetch_no_DataError: "fetch cfg w s = (res, s', evs) \<Longrightarrow> DataError x \<notin> set evs"
  by (auto simp: fetch_def Let_def split: if_splits outcome.splits option.splits sum.splits)

lemma fetch_frame:
  assumes "fetch cfg w s = (res, s', evs)"
  shows "url s' = url s \<and> refreshInterval s' = refreshInterval s
       \<and> fetchRefreshesWithoutInterval s' = fetchRefreshesWithoutInterval s
       \<and> pollingTimeout s' = pollingTimeout s"
  using assms
  by (auto simp: fetch_def Let_def split: if_splits outcome.splits option.splits sum.splits)

lemma refreshData_frame:
  assumes "refreshData cfg w s = (s', evs)"
  shows "url s' = url s \<and> refreshInterval s' = refreshInterval s
       \<and> fetchRefreshesWithoutInterval s' = fetchRefreshesWithoutInterval s
       \<and> pollingTimeout s' = pollingTimeout s"
proof -
  obtain res s1 evs1 where f: "fetch cfg w s = (res, s1, evs1)"
    by (cases "fetch cfg w s") auto
  from fetch_frame[OF f] assms f show ?thesis
    by (auto simp: refreshData_def split: sum.splits thrown.splits if_splits)
qed

lemma setupPollingTimeout_frame:
  assumes "setupPollingTimeout cfg w s = (s', evs)"
  shows "url s' = url s \<and> refreshInterval s' = refreshInterval s
       \<and> fetchRefreshesWithoutInterval s' = fetchRefreshesWithoutInterval s"
proof (cases "getRefreshIntervalInMilliseconds (now w) s")
  case None
  with assms have "refreshData cfg w (s\<lparr>pollingTimeout := None\<rparr>) = (s', evs)"
    by (simp add: setupPollingTimeout_def)
  from refreshData_frame[OF this] show ?thesis by simp
next
  case (Some i)
  with assms show ?thesis by (auto simp: setupPollingTimeout_def)
qed

lemma resetFields_frame:
  "refreshInterval (resetFields newUrl s) = refreshInterval s
   \<and> fetchRefreshesWithoutInterval (resetFields newUrl s) = fetchRefreshesWithoutInterval s
   \<and> pollingTimeout (resetFields newUrl s) = pollingTimeout s"
  by (auto simp: resetFields_def Let_def split: option.splits)

lemma nan_expiry_like_null:
  "getRefreshIntervalInMilliseconds t (s\<lparr>expires := Some NaN\<rparr>)
   = getRefreshIntervalInMilliseconds t (s\<lparr>expires := None\<rparr>)"
  by (simp add: getRefreshIntervalInMilliseconds_def)

text \<open>
  Whenever the transport resolves, \<open>loading\<close> goes true, the request is issued and
  \<open>loading\<close> goes false, whatever follows; when it rejects, the run ends after the
  request.
\<close>

lemma fetch_loading_resolved:
  assumes "fetch cfg w s = (res, s', evs)" and "evs \<noteq> []" and "reply w = Resolved r"
  shows "take 3 evs = [Loading True, HttpGet (url s) (getHeaders cfg s), Loading False]"
  using assms
  by (auto simp: fetch_def Let_def split: if_splits option.splits sum.splits)

lemma fetch_loading_rejected:
  assumes "fetch cfg w s = (res, s', evs)" and "evs \<noteq> []" and "reply w = Rejected e"
  shows "evs = [Loading True, HttpGet (url s) (getHeaders cfg s)] \<and> res = Inl e \<and> s' = s"
  using assms
  by (auto simp: fetch_def Let_def split: if_splits)

text \<open>
  A converter that throws leaves the value alone, but the validators have already been
  replaced by those of the response.
\<close>

lemma fetch_converter_failure:
  assumes "reply w = Resolved r" and "status r = 200" and "body r = Some b"
    and "converter cfg b = Inl e" and "fetch cfg w s = (res, s', evs)" and "evs \<noteq> []"
  shows "res = Inl e \<and> cachedValue s' = cachedValue s
       \<and> etag s' = etagHeader (headers r)
       \<and> lastFetchTimestamp s' = Some (nowAfter w)
       \<and> expires s' = createExpires cfg (expiresHeader (headers r))"
  using assms
  by (auto simp: fetch_def Let_def split: if_splits)

lemma subscribe_first_starts:
  "\<not> closed sb \<Longrightarrow> \<not> observed sb
   \<Longrightarrow> StartPolling \<in> set (snd (subscribe current subscriber sb))"
  by (simp add: subscribe_def Let_def)

lemma subscribe_closed: "closed sb \<Longrightarrow> subscribe current subscriber sb = (sb, [ThrowUnsubscribed])"
  by (simp add: subscribe_def)

lemma unsubscribe_ends:
  "snd (unsubscribe sb) = [EndPolling] \<and> \<not> observed (fst (unsubscribe sb))"
  by (simp add: unsubscribe_def observed_def Let_def)

lemma teardown_silent: "snd (teardown subscriber sb) = []"
  by (simp add: teardown_def)

text \<open>The last subscriber leaving: the subject becomes unobserved and no callback runs.\<close>

lemma teardown_last_subscriber:
  assumes "observers sb = [subscriber]"
  shows "observed sb \<and> \<not> observed (fst (teardown subscriber sb))
       \<and> snd (teardown subscriber sb) = []"
  using assms by (simp add: teardown_def observed_def)

text \<open>What \<open>reset\<close> leaves behind before it re-arms the timer or fetches.\<close>

lemma resetFields_validators:
  "etag (resetFields newUrl s) = None \<and> expires (resetFields newUrl s) = None
   \<and> lastFetchTimestamp (resetFields newUrl s) = None"
  by (auto simp: resetFields_def Let_def split: option.splits)

text \<open>After the assignments of reset the wait is 0, or undefined.\<close>

lemma resetFields_interval:
  "getRefreshIntervalInMilliseconds t (resetFields newUrl s)
   = (if cachedValue (resetFields newUrl s) \<noteq> None \<and> \<not> truthyInt (refreshInterval s)
      then None else Some 0)"
  using resetFields_validators[of newUrl s] resetFields_frame[of newUrl s]
  by (simp add: getRefreshIntervalInMilliseconds_def)

lemma reset_armed: "pollingTimeout s \<noteq> None \<longrightarrow>
        reset cfg w isObserved newUrl s
          = (case setupPollingTimeout cfg w ((resetFields newUrl s)\<lparr>pollingTimeout := None\<rparr>) of
               (s2, evs) \<Rightarrow> (Inr (), s2, evs))"
  using resetFields_frame[of newUrl s] by (simp add: reset_def Let_def clearPollingTimeout_def)

lemma reset_rearmed: "pollingTimeout s \<noteq> None
        \<and> (cachedValue (resetFields newUrl s) = None \<or> truthyInt (refreshInterval s)) \<longrightarrow>
        reset cfg w isObserved newUrl s = (Inr (), (resetFields newUrl s)\<lparr>pollingTimeout := Some 0\<rparr>, [])"
proof (intro impI)
  let ?s1 = "resetFields newUrl s"
  assume h: "pollingTimeout s \<noteq> None
        \<and> (cachedValue ?s1 = None \<or> truthyInt (refreshInterval s))"
  have "getRefreshIntervalInMilliseconds (now w) (?s1\<lparr>pollingTimeout := None\<rparr>)
        = getRefreshIntervalInMilliseconds (now w) ?s1"
    by (simp add: getRefreshIntervalInMilliseconds_def)
  also have "\<dots> = Some 0"
    using h by (simp add: resetFields_interval)
  finally have "setupPollingTimeout cfg w (?s1\<lparr>pollingTimeout := None\<rparr>)
        = (?s1\<lparr>pollingTimeout := Some 0\<rparr>, [])"
    by (simp add: setupPollingTimeout_def)
  with reset_armed[of s cfg w isObserved newUrl] h
  show "reset cfg w isObserved newUrl s = (Inr (), ?s1\<lparr>pollingTimeout := Some 0\<rparr>, [])"
    by simp
qed

lemma reset_fetched: "pollingTimeout s = None \<and> isObserved \<longrightarrow>
        reset cfg w isObserved newUrl s
          = (case fetch cfg w (resetFields newUrl s) of
               (res, s2, evs) \<Rightarrow> ((case res of Inl e \<Rightarrow> Inl e | Inr v \<Rightarrow> Inr ()), s2, evs))"
proof (intro impI)
  assume h: "pollingTimeout s = None \<and> isObserved"
  obtain res s2 evs where f: "fetch cfg w (resetFields newUrl s) = (res, s2, evs)"
    by (cases "fetch cfg w (resetFields newUrl s)") auto
  from h f resetFields_frame[of newUrl s]
  show "reset cfg w isObserved newUrl s
          = (case fetch cfg w (resetFields newUrl s) of
               (res, s2, evs) \<Rightarrow> ((case res of Inl e \<Rightarrow> Inl e | Inr v \<Rightarrow> Inr ()), s2, evs))"
    by (cases res) (simp_all add: reset_def Let_def)
qed

lemma reset_keeps_configuration:
  assumes r: "reset cfg w isObserved newUrl s = (res, s', evs)"
  shows "url s' = url (resetFields newUrl s)
        \<and> refreshInterval s' = refreshInterval s
        \<and> fetchRefreshesWithoutInterval s' = fetchRefreshesWithoutInterval s"
proof -
  let ?s1 = "resetFields newUrl s"
  have rf: "refreshInterval ?s1 = refreshInterval s"
    "fetchRefreshesWithoutInterval ?s1 = fetchRefreshesWithoutInterval s"
    "pollingTimeout ?s1 = pollingTimeout s"
    using resetFields_frame[of newUrl s] by simp_all
  show ?thesis
  proof (cases "pollingTimeout ?s1 \<noteq> None")
    case True
    obtain s2 evs2 where sp: "setupPollingTimeout cfg w (clearPollingTimeout ?s1) = (s2, evs2)"
      by (cases "setupPollingTimeout cfg w (clearPollingTimeout ?s1)") auto
    from r True sp have "s' = s2" by (simp add: reset_def Let_def)
    with setupPollingTimeout_frame[OF sp] rf show ?thesis
      by (simp add: clearPollingTimeout_def)
  next
    case False
    show ?thesis
    proof (cases isObserved)
      case True
      obtain res2 s2 evs2 where f: "fetch cfg w ?s1 = (res2, s2, evs2)"
        by (cases "fetch cfg w ?s1") auto
      from r False True f have "s' = s2"
        by (auto simp: reset_def Let_def split: sum.splits)
      with fetch_frame[OF f] rf show ?thesis by simp
    next
      case unobserved: False
      from r False unobserved have "s' = ?s1" by (simp add: reset_def Let_def)
      with rf show ?thesis by simp
    qed
  qed
qed

text \<open>
  \<open>refreshData\<close>, by the kind of value the failed \<open>fetch\<close> threw: an
  \<open>HttpErrorResponse\<close> with status 304, one with another status, anything else.
\<close>

lemma refreshData_by_failure:
  assumes "fetch cfg w s = (Inl e, s', evs)"
  shows "(\<forall>hs. e = HttpErrorResponse 304 hs \<longrightarrow>
            refreshData cfg w s
              = (s'\<lparr>etag := etagHeader hs, lastFetchTimestamp := Some (nowAfter w),
                     expires := createExpires cfg (expiresHeader hs)\<rparr>, evs)
            \<and> (\<forall>x. DataError x \<notin> set (snd (refreshData cfg w s))))
       \<and> (\<forall>st hs. e = HttpErrorResponse st hs \<and> st \<noteq> 304 \<longrightarrow>
            refreshData cfg w s = (s', evs @ [DataError e]))
       \<and> ((\<forall>st hs. e \<noteq> HttpErrorResponse st hs) \<longrightarrow>
            refreshData cfg w s = (s', evs)
            \<and> (\<forall>x. DataError x \<notin> set (snd (refreshData cfg w s))))"
proof -
  have quiet: "\<And>x. DataError x \<notin> set evs"
    using fetch_no_DataError[OF assms] by simp
  show ?thesis
    using assms quiet
    by (cases e) (auto simp: refreshData_def createExpires_def)
qed

text \<open>The function in terms of JavaScript truthiness.\<close>

lemma getRefreshInterval_truthy:
  "getRefreshIntervalInMilliseconds t s = freshnessRule truthy truthyInt truthyInt t s"
proof (cases "expires s")
  case None
  then show ?thesis
    by (auto simp: getRefreshIntervalInMilliseconds_def freshnessRule_def Let_def
             split: option.splits)
next
  case (Some x)
  then show ?thesis
    by (cases x)
       (auto simp: getRefreshIntervalInMilliseconds_def freshnessRule_def Let_def
             split: option.splits)
qed

text \<open>
  Where neither the expiry nor the fetch timestamp is the zero timestamp, truthiness
  and "not null" say the same of them.
\<close>

lemma freshnessRule_readings_agree:
  assumes "expires s \<noteq> Some (Num 0)" and "lastFetchTimestamp s \<noteq> Some 0"
  shows "freshnessRule truthy truthyInt truthyInt t s = freshnessRule isTimestamp isSet truthyInt t s"
proof -
  have e: "truthy (expires s) = isTimestamp (expires s)"
    using assms(1) by (cases "expires s" rule: truthy.cases) auto
  have l: "truthyInt (lastFetchTimestamp s) = isSet (lastFetchTimestamp s)"
    using assms(2) by (cases "lastFetchTimestamp s") auto
  show ?thesis
    using e l assms
    by (auto simp: freshnessRule_def Let_def split: option.splits jsnumber.splits)
qed

text \<open>
  The zero timestamp itself: with an Expires header at the epoch, a value held and no
  refresh interval the function returns undefined, although the expiry has passed;
  with any other passed expiry it returns 0.
\<close>

lemma epoch_expiry:
  "getRefreshIntervalInMilliseconds 2000
     ((newFetcher ''https://api.example.com/data'' None False)
        \<lparr>etag := Some ''v1'', lastFetchTimestamp := Some 1000, expires := Some (Num 0),
          cachedValue := Some (3::nat)\<rparr>) = None
   \<and> getRefreshIntervalInMilliseconds 2000
     ((newFetcher ''https://api.example.com/data'' None False)
        \<lparr>etag := Some ''v1'', lastFetchTimestamp := Some 1000, expires := Some (Num 1000),
          cachedValue := Some (3::nat)\<rparr>) = Some 0"
  by (simp add: getRefreshIntervalInMilliseconds_def newFetcher_def)

text \<open>
  The object built by \<open>createById\<close>: its own property under a key other than
  \<open>__proto__\<close> is the last item with that key, and its prototype is the last item
  whose key is \<open>__proto__\<close>, if any.
\<close>

lemma foldl_assign_own:
  assumes "pk \<noteq> ''__proto__''"
  shows "own (foldl (\<lambda>m entity. assign m (toPropertyKey (idKey entity)) entity) obj entities) pk
   = (case find (\<lambda>entity. toPropertyKey (idKey entity) = pk) (rev entities) of
        None \<Rightarrow> own obj pk
      | Some entity \<Rightarrow> Some entity)"
  using assms by (induction entities rule: rev_induct) (auto simp: assign_def)

lemma foldl_assign_proto:
  "proto (foldl (\<lambda>m entity. assign m (toPropertyKey (idKey entity)) entity) obj entities)
   = (case find (\<lambda>entity. toPropertyKey (idKey entity) = ''__proto__'') (rev entities) of
        None \<Rightarrow> proto obj
      | Some entity \<Rightarrow> Some entity)"
  by (induction entities rule: rev_induct) (auto simp: assign_def)

lemma find_none_iff_all: "(find P xs = None) = (\<forall>x \<in> set xs. \<not> P x)"
  by (induction xs) auto

lemma latestDataLoader_last:
  "latestDataLoader upstream
   = (if dataLoaderEmissions upstream = [] then None
      else Some (last (dataLoaderEmissions upstream)))"
  by (cases "dataLoaderEmissions upstream") (simp_all add: latestDataLoader_def)

lemma dataLoaderEmissions_emitted:
  "dataLoaderEmissions (map (map_notification g) (map Emitted raws))
   = map (\<lambda>raw. createLocalDataLoader (byId (g raw))) raws"
  by (induction raws) auto

text \<open>
  For a key that is neither \<open>__proto__\<close> nor the name of a member of
  \<open>Object.prototype\<close>, and an item array without the identifier \<open>__proto__\<close>,
  \<open>load\<close> after a run of emissions returns the last item of the latest array whose
  property key is that of the identifier asked for, and absent when there is none or
  nothing was emitted.
\<close>

lemma overlayLoad_ordinary_key:
  assumes "toPropertyKey key \<noteq> ''__proto__''"
    and "toPropertyKey key \<notin> set objectPrototypeMembers"
    and "\<forall>item \<in> set (items (last raws)). toPropertyKey (idKey item) \<noteq> ''__proto__''"
  shows "overlayLoad fieldsOf idKey (map Emitted raws) key
   = (if raws = [] then None
      else map_option Entity
             (find (\<lambda>item. toPropertyKey (idKey item) = toPropertyKey key)
                (rev (items (last raws)))))"
proof (cases "raws = []")
  case True
  then show ?thesis by (simp add: overlayLoad_def latestDataLoader_def)
next
  case False
  let ?obj = "createById (items (last raws)) idKey"
  have latest: "latestDataLoader (map (map_notification (serviceConverter idKey)) (map Emitted raws))
        = Some (createLocalDataLoader ?obj)"
    using False
    by (simp only: latestDataLoader_last dataLoaderEmissions_emitted)
       (simp add: last_map serviceConverter_def)
  have "find (\<lambda>entity. toPropertyKey (idKey entity) = ''__proto__'') (rev (items (last raws))) = None"
    using assms(3) by (simp add: find_none_iff_all)
  then have pr: "proto ?obj = None"
    by (simp add: createById_def foldl_assign_proto emptyObject_def)
  have ow: "own ?obj (toPropertyKey key)
        = find (\<lambda>item. toPropertyKey (idKey item) = toPropertyKey key) (rev (items (last raws)))"
    using assms(1)
    by (simp add: createById_def foldl_assign_own emptyObject_def split: option.splits)
  show ?thesis
    using False latest pr ow assms(1,2)
    by (simp add: overlayLoad_def createLocalDataLoader_def getProperty_def split: option.splits)
qed

lemmas overlay_defs =
  overlayLoad_def latestDataLoader_def serviceConverter_def createLocalDataLoader_def
  createById_def assign_def getProperty_def emptyObject_def objectPrototypeMembers_def
  demoFields_def

section \<open>Freshness (C1)\<close>

text \<open>
  C1, as amended. For every engine state whose expiresAt and lastFetchTimestamp are not
  the zero timestamp, and every time, the function returns undefined exactly when a
  value is known and neither an expiry nor a refresh interval is configured, otherwise
  the smaller of the remaining durations that are present, and 0 when neither is
  present; a refresh interval counts as configured when it is set and not 0.
\<close>

theorem getRefreshInterval_rule:
  assumes "expires s \<noteq> Some (Num 0)" and "lastFetchTimestamp s \<noteq> Some 0"
  shows "getRefreshIntervalInMilliseconds t s = freshnessRule isTimestamp isSet truthyInt t s"
  using assms by (simp add: getRefreshInterval_truthy freshnessRule_readings_agree)

text \<open>
  Witness for C1: a fetcher with refresh interval 100, fetched at 1000, expiring at
  5000, asked at 1050, 1200 and 6000; and a fetcher with a value and neither expiry nor
  refresh interval.
\<close>

theorem getRefreshInterval_rule_witness:
  "getRefreshIntervalInMilliseconds 1050 (staleEngine\<lparr>expires := Some (Num 5000)\<rparr>) = Some 50
   \<and> getRefreshIntervalInMilliseconds 1200 (staleEngine\<lparr>expires := Some (Num 5000)\<rparr>) = Some 3800
   \<and> getRefreshIntervalInMilliseconds 6000 (staleEngine\<lparr>expires := Some (Num 5000)\<rparr>) = Some 0
   \<and> getRefreshIntervalInMilliseconds 6000
        ((newFetcher ''https://api.example.com/data'' None False)
           \<lparr>etag := Some ''v1'', lastFetchTimestamp := Some 1000, cachedValue := Some (3::nat)\<rparr>)
      = None"
proof -
  let ?s = "staleEngine\<lparr>expires := Some (Num 5000)\<rparr>"
  let ?u = "(newFetcher ''https://api.example.com/data'' None False)
           \<lparr>etag := Some ''v1'', lastFetchTimestamp := Some 1000, cachedValue := Some (3::nat)\<rparr>"
  have hs: "expires ?s \<noteq> Some (Num 0)" "lastFetchTimestamp ?s \<noteq> Some 0"
    by (simp_all add: staleEngine_def newFetcher_def)
  have hu: "expires ?u \<noteq> Some (Num 0)" "lastFetchTimestamp ?u \<noteq> Some 0"
    by (simp_all add: newFetcher_def)
  have rule:
    "freshnessRule isTimestamp isSet truthyInt 1050 ?s = Some 50"
    "freshnessRule isTimestamp isSet truthyInt 1200 ?s = Some 3800"
    "freshnessRule isTimestamp isSet truthyInt 6000 ?s = Some 0"
    "freshnessRule isTimestamp isSet truthyInt 6000 ?u = None"
    by (simp_all add: freshnessRule_def staleEngine_def newFetcher_def)
  show ?thesis
    using getRefreshInterval_rule[OF hs, of 1050] getRefreshInterval_rule[OF hs, of 1200]
      getRefreshInterval_rule[OF hs, of 6000] getRefreshInterval_rule[OF hu, of 6000] rule
    by simp
qed

text \<open>
  C1 as stated fails. A fetcher configured with the refresh interval 0 accepted the
  value 7 at time 500, with no Expires header. At time 1000 the claim gives the wait 0
  (a refresh interval is configured, and no remaining duration is present); the
  function gives undefined.
\<close>

theorem getRefreshInterval_literal_counterexample:
  "getRefreshIntervalInMilliseconds 1000
     ((newFetcher ''https://api.example.com/data'' (Some 0) False)
        \<lparr>etag := Some ''v1'', lastFetchTimestamp := Some 500, cachedValue := Some (7::nat)\<rparr>)
   = None
   \<and> freshnessRule isTimestamp isSet isSet 1000
     ((newFetcher ''https://api.example.com/data'' (Some 0) False)
        \<lparr>etag := Some ''v1'', lastFetchTimestamp := Some 500, cachedValue := Some (7::nat)\<rparr>)
   = Some 0"
  by (simp add: getRefreshIntervalInMilliseconds_def freshnessRule_def newFetcher_def)

section \<open>Change suppression (C2)\<close>

text \<open>
  C2. Take any run of \<open>fetch\<close>. If the transport answers 304, the run is the same
  whatever the converter is (it is never invoked), no value is emitted on the change
  stream and the cached value stays. If it answers 200 with a body whose converted
  value \<open>isEqual\<close> judges equal to the cached one, the cached value is kept and nothing
  is emitted. And whenever the cached value changes or a value is emitted, the answer
  was a 200 with a body, the converted value is what is now stored and was emitted
  (after \<open>loading\<close> went back to false), and either no value was held before or
  \<open>isEqual\<close> returned false.
\<close>

theorem fetch_suppresses_unchanged:
  assumes "fetch cfg w s = (res, s', evs)"
  shows "(is304 (reply w) \<longrightarrow>
            (\<forall>c. fetch (cfg\<lparr>converter := c\<rparr>) w s = fetch cfg w s)
            \<and> (\<forall>v. DataNext v \<notin> set evs) \<and> cachedValue s' = cachedValue s)
       \<and> (\<forall>r b old newValue.
             reply w = Resolved r \<and> status r = 200 \<and> body r = Some b
             \<and> converter cfg b = Inr newValue \<and> cachedValue s = Some old
             \<and> isEqual cfg old newValue
             \<longrightarrow> cachedValue s' = Some old \<and> (\<forall>v. DataNext v \<notin> set evs))
       \<and> (cachedValue s' \<noteq> cachedValue s \<or> (\<exists>v. DataNext v \<in> set evs) \<longrightarrow>
             (\<exists>r b newValue.
                reply w = Resolved r \<and> status r = 200 \<and> body r = Some b
                \<and> converter cfg b = Inr newValue
                \<and> (cachedValue s = None
                     \<or> (\<exists>old. cachedValue s = Some old \<and> \<not> isEqual cfg old newValue))
                \<and> cachedValue s' = Some newValue
                \<and> evs = [Loading True, HttpGet (url s) (getHeaders cfg s), Loading False,
                          DataNext newValue]))"
proof -
  have a: "is304 (reply w) \<longrightarrow>
            (\<forall>c. fetch (cfg\<lparr>converter := c\<rparr>) w s = fetch cfg w s)
            \<and> (\<forall>v. DataNext v \<notin> set evs) \<and> cachedValue s' = cachedValue s"
  proof (cases "reply w")
    case (Resolved r)
    with assms show ?thesis
      by (auto simp: fetch_def Let_def split: if_splits)
  next
    case (Rejected e)
    with assms show ?thesis
      by (cases e) (auto simp: fetch_def Let_def split: if_splits)
  qed
  have b: "\<forall>r b old newValue.
             reply w = Resolved r \<and> status r = 200 \<and> body r = Some b
             \<and> converter cfg b = Inr newValue \<and> cachedValue s = Some old
             \<and> isEqual cfg old newValue
             \<longrightarrow> cachedValue s' = Some old \<and> (\<forall>v. DataNext v \<notin> set evs)"
    using assms by (auto simp: fetch_def Let_def split: if_splits)
  have c: "cachedValue s' \<noteq> cachedValue s \<or> (\<exists>v. DataNext v \<in> set evs) \<longrightarrow>
             (\<exists>r b newValue.
                reply w = Resolved r \<and> status r = 200 \<and> body r = Some b
                \<and> converter cfg b = Inr newValue
                \<and> (cachedValue s = None
                     \<or> (\<exists>old. cachedValue s = Some old \<and> \<not> isEqual cfg old newValue))
                \<and> cachedValue s' = Some newValue
                \<and> evs = [Loading True, HttpGet (url s) (getHeaders cfg s), Loading False,
                          DataNext newValue])"
    using assms
    by (auto simp: fetch_def Let_def
             split: if_splits outcome.splits option.splits sum.splits)
  from a b c show ?thesis by blast
qed

text \<open>
  Witness for C2: the stale fetcher holding 3 receives a 304, and a 200 whose body
  converts to 3 again; both runs keep the value and emit nothing.
\<close>

theorem fetch_suppresses_unchanged_witness:
  "(\<forall>c. fetch (demoConfig\<lparr>converter := c\<rparr>)
            \<lparr>now = 2000, reply = respond 304 (Some ''v1'') None None, nowAfter = 2050\<rparr> staleEngine
        = fetch demoConfig
            \<lparr>now = 2000, reply = respond 304 (Some ''v1'') None None, nowAfter = 2050\<rparr> staleEngine)
   \<and> cachedValue (staleEngine\<lparr>etag := Some ''v1'', lastFetchTimestamp := Some 2050,
                               expires := None\<rparr>) = Some 3
   \<and> (\<forall>v::nat. DataNext v \<notin> set [Loading True,
                               HttpGet ''https://api.example.com/data'' [(''If-None-Match'', ''v1'')],
                               Loading False])"
proof -
  let ?w304 = "\<lparr>now = 2000, reply = respond 304 (Some ''v1'') None None, nowAfter = 2050\<rparr>
                 :: string world"
  let ?w200 = "\<lparr>now = 2000, reply = respond 200 (Some ''v1'') None (Some ''abc''),
                 nowAfter = 2050\<rparr>"
  let ?r200 = "\<lparr>status = 200, headers = \<lparr>etagHeader = Some ''v1'', expiresHeader = None\<rparr>,
                 body = Some ''abc''\<rparr>"
  let ?after = "staleEngine\<lparr>etag := Some ''v1'', lastFetchTimestamp := Some 2050,
                            expires := None\<rparr>"
  let ?calls = "[Loading True,
                 HttpGet ''https://api.example.com/data'' [(''If-None-Match'', ''v1'')],
                 Loading False] :: nat event list"
  have run304: "fetch demoConfig ?w304 staleEngine = (Inr (Some 3), ?after, ?calls)"
    by (simp add: run_defs)
  have not_modified: "is304 (reply ?w304)"
    by (simp add: respond_def)
  have run200: "fetch demoConfig ?w200 staleEngine = (Inr (Some 3), ?after, ?calls)"
    by (simp add: run_defs)
  have equal_payload:
    "reply ?w200 = Resolved ?r200 \<and> status ?r200 = 200 \<and> body ?r200 = Some ''abc''
     \<and> converter demoConfig ''abc'' = Inr 3 \<and> cachedValue staleEngine = Some 3
     \<and> isEqual demoConfig 3 3"
    by (simp add: respond_def demoConfig_def staleEngine_def)
  from fetch_suppresses_unchanged[OF run304] not_modified
  have first: "\<forall>c. fetch (demoConfig\<lparr>converter := c\<rparr>) ?w304 staleEngine
                   = fetch demoConfig ?w304 staleEngine"
    by blast
  from fetch_suppresses_unchanged[OF run200] equal_payload
  have second: "cachedValue ?after = Some 3 \<and> (\<forall>v. DataNext v \<notin> set ?calls)"
    by blast
  from first second show ?thesis by blast
qed

section \<open>A throwing converter (C3)\<close>

text \<open>
  C3 says that a fetch whose converter throws leaves value, etag, expiresAt and
  lastFetchTimestamp as they were. The run below holds value 3 under etag \<open>v1\<close>,
  fetched at 1000 with no expiry; the answer is a 200 with etag \<open>v2\<close>, an Expires
  header and a body the converter rejects. The fetch fails and the value is still 3,
  but etag, lastFetchTimestamp and expiresAt are those of the failed response: the
  state differs from the one before the fetch.
\<close>

theorem fetch_converter_failure_moves_validators:
  "fetch demoConfig
     \<lparr>now = 2000,
      reply = respond 200 (Some ''v2'') (Some ''Thu, 01 Jan 1970 00:00:05 GMT'') (Some ''broken''),
      nowAfter = 2050\<rparr> staleEngine
   = (Inl (OtherError ''cannot convert''),
      staleEngine\<lparr>etag := Some ''v2'', lastFetchTimestamp := Some 2050, expires := Some (Num 5000)\<rparr>,
      [Loading True, HttpGet ''https://api.example.com/data'' [(''If-None-Match'', ''v1'')],
       Loading False])
   \<and> staleEngine\<lparr>etag := Some ''v2'', lastFetchTimestamp := Some 2050, expires := Some (Num 5000)\<rparr>
      \<noteq> staleEngine"
  by (simp add: run_defs)

section \<open>Validators after a successful fetch (C4)\<close>

text \<open>
  C4, as amended. After a fetch that issued a request and completed successfully on a
  response, that response had status 200 or 304, the stored etag is its ETag header
  (null when absent), and expiresAt is null when the Expires header is absent or empty
  and otherwise what \<open>Date\<close> parsing makes of the header: the timestamp, or \<open>NaN\<close> for
  an unparsable string. The freshness computation cannot tell a \<open>NaN\<close> expiry from
  null.
\<close>

theorem fetch_stores_validators:
  assumes "fetch cfg w s = (Inr v, s', evs)" and "reply w = Resolved r" and "evs \<noteq> []"
  shows "(status r = 200 \<or> status r = 304)
       \<and> etag s' = etagHeader (headers r)
       \<and> (expiresHeader (headers r) = None \<or> expiresHeader (headers r) = Some [] \<longrightarrow>
            expires s' = None)
       \<and> (\<forall>x. expiresHeader (headers r) = Some x \<and> x \<noteq> [] \<longrightarrow>
            expires s' = Some (parseDate cfg x))
       \<and> (\<forall>t. getRefreshIntervalInMilliseconds t (s'\<lparr>expires := Some NaN\<rparr>)
              = getRefreshIntervalInMilliseconds t (s'\<lparr>expires := None\<rparr>))"
proof -
  from assms have a: "(status r = 200 \<or> status r = 304)
       \<and> etag s' = etagHeader (headers r)
       \<and> expires s' = createExpires cfg (expiresHeader (headers r))"
    by (auto simp: fetch_def Let_def split: if_splits option.splits sum.splits)
  then show ?thesis
    by (auto simp: createExpires_def nan_expiry_like_null)
qed

text \<open>
  Witness for C4: a 200 with etag \<open>v2\<close> and a parsable Expires header is accepted by
  the stale fetcher.
\<close>

theorem fetch_stores_validators_witness:
  "etag (staleEngine\<lparr>etag := Some ''v2'', lastFetchTimestamp := Some 2050,
                      expires := Some (Num 5000), cachedValue := Some 4\<rparr>) = Some ''v2''
   \<and> expires (staleEngine\<lparr>etag := Some ''v2'', lastFetchTimestamp := Some 2050,
                      expires := Some (Num 5000), cachedValue := Some 4\<rparr>)
       = Some (parseDate demoConfig ''Thu, 01 Jan 1970 00:00:05 GMT'')"
proof -
  have run: "fetch demoConfig
     \<lparr>now = 2000,
      reply = respond 200 (Some ''v2'') (Some ''Thu, 01 Jan 1970 00:00:05 GMT'') (Some ''abcd''),
      nowAfter = 2050\<rparr> staleEngine
   = (Inr (Some 4),
      staleEngine\<lparr>etag := Some ''v2'', lastFetchTimestamp := Some 2050,
                  expires := Some (Num 5000), cachedValue := Some 4\<rparr>,
      [Loading True, HttpGet ''https://api.example.com/data'' [(''If-None-Match'', ''v1'')],
       Loading False, DataNext 4])"
    by (simp add: run_defs)
  have rep: "reply \<lparr>now = 2000,
      reply = respond 200 (Some ''v2'') (Some ''Thu, 01 Jan 1970 00:00:05 GMT'') (Some ''abcd''),
      nowAfter = 2050\<rparr>
    = Resolved \<lparr>status = 200,
         headers = \<lparr>etagHeader = Some ''v2'',
                    expiresHeader = Some ''Thu, 01 Jan 1970 00:00:05 GMT''\<rparr>,
         body = Some ''abcd''\<rparr>"
    by (simp add: respond_def)
  show ?thesis
    using fetch_stores_validators[OF run rep] by simp
qed

text \<open>
  C4 as stated fails: an Expires header that does not parse leaves expiresAt at \<open>NaN\<close>,
  not at null, after a successful fetch.
\<close>

theorem fetch_unparsable_expires_counterexample:
  "parseDate demoConfig ''tomorrow'' = NaN
   \<and> fetch demoConfig
     \<lparr>now = 2000,
      reply = respond 200 (Some ''v2'') (Some ''tomorrow'') (Some ''abcd''),
      nowAfter = 2050\<rparr> staleEngine
   = (Inr (Some 4),
      staleEngine\<lparr>etag := Some ''v2'', lastFetchTimestamp := Some 2050,
                  expires := Some NaN, cachedValue := Some 4\<rparr>,
      [Loading True, HttpGet ''https://api.example.com/data'' [(''If-None-Match'', ''v1'')],
       Loading False, DataNext 4])
   \<and> expires (staleEngine\<lparr>etag := Some ''v2'', lastFetchTimestamp := Some 2050,
                  expires := Some NaN, cachedValue := Some 4\<rparr>) \<noteq> None"
  by (simp add: run_defs)

section \<open>The loading signal (C5)\<close>

text \<open>
  C5 says that \<open>loading\<close> goes back to false after the request resolves in every
  outcome, a transport error included. In the run below the transport rejects with a
  500: the fetch fails at the \<open>await\<close> and the calls made are \<open>loading\<close> true and the
  request, nothing else. \<open>loading\<close> is left at true.
\<close>

theorem fetch_rejected_leaves_loading:
  "fetch demoConfig
     \<lparr>now = 2000,
      reply = Rejected (HttpErrorResponse 500 \<lparr>etagHeader = None, expiresHeader = None\<rparr>),
      nowAfter = 2050\<rparr> staleEngine
   = (Inl (HttpErrorResponse 500 \<lparr>etagHeader = None, expiresHeader = None\<rparr>),
      staleEngine,
      [Loading True, HttpGet ''https://api.example.com/data'' [(''If-None-Match'', ''v1'')]])"
  by (simp add: run_defs)

section \<open>reset (C6)\<close>

text \<open>
  C6, as amended. \<open>reset(newUrl)\<close> starts from the state in which etag, expiresAt and
  lastFetchTimestamp are null; when \<open>newUrl\<close> is omitted, empty or equal to the current
  URL nothing else differs from the state before, and when it is a non-empty URL
  different from the current one the cached value is cleared and the URL switched as
  well. What follows depends on the timer and the subscribers. With no timer armed and
  the stream unobserved, that state is the result and nothing is emitted. With a timer
  armed, the timer is cleared and \<open>setupPollingTimeout\<close> is run on that state; when
  the value is unknown or a non-zero refresh interval is configured this arms a timer
  of 0 ms and changes nothing else. With no timer armed and the stream observed,
  \<open>fetch\<close> is run on that state and \<open>reset\<close> settles as the fetch does. In every
  case the URL stays as assigned and \<open>refreshInterval\<close> and
  \<open>fetchRefreshesWithoutInterval\<close> stay as they were.
\<close>

theorem reset_frame:
  "etag (resetFields newUrl s) = None
   \<and> expires (resetFields newUrl s) = None
   \<and> lastFetchTimestamp (resetFields newUrl s) = None
   \<and> (newUrl = None \<or> newUrl = Some [] \<or> newUrl = Some (url s) \<longrightarrow>
        resetFields newUrl s = s\<lparr>etag := None, expires := None, lastFetchTimestamp := None\<rparr>)
   \<and> (\<forall>u. newUrl = Some u \<and> u \<noteq> [] \<and> u \<noteq> url s \<longrightarrow>
        resetFields newUrl s =
          s\<lparr>etag := None, expires := None, lastFetchTimestamp := None,
            cachedValue := None, url := u\<rparr>)
   \<and> (pollingTimeout s = None \<and> \<not> isObserved \<longrightarrow>
        reset cfg w isObserved newUrl s = (Inr (), resetFields newUrl s, []))
   \<and> (pollingTimeout s \<noteq> None \<longrightarrow>
        reset cfg w isObserved newUrl s
          = (case setupPollingTimeout cfg w ((resetFields newUrl s)\<lparr>pollingTimeout := None\<rparr>) of
               (s2, evs) \<Rightarrow> (Inr (), s2, evs)))
   \<and> (pollingTimeout s \<noteq> None
        \<and> (cachedValue (resetFields newUrl s) = None \<or> truthyInt (refreshInterval s)) \<longrightarrow>
        reset cfg w isObserved newUrl s
          = (Inr (), (resetFields newUrl s)\<lparr>pollingTimeout := Some 0\<rparr>, []))
   \<and> (pollingTimeout s = None \<and> isObserved \<longrightarrow>
        reset cfg w isObserved newUrl s
          = (case fetch cfg w (resetFields newUrl s) of
               (res, s2, evs) \<Rightarrow> ((case res of Inl e \<Rightarrow> Inl e | Inr v \<Rightarrow> Inr ()), s2, evs)))
   \<and> (\<forall>res s' evs. reset cfg w isObserved newUrl s = (res, s', evs) \<longrightarrow>
        url s' = url (resetFields newUrl s)
        \<and> refreshInterval s' = refreshInterval s
        \<and> fetchRefreshesWithoutInterval s' = fetchRefreshesWithoutInterval s)"
proof -
  let ?s1 = "resetFields newUrl s"
  have a1: "etag ?s1 = None" and a2: "expires ?s1 = None" and a3: "lastFetchTimestamp ?s1 = None"
    using resetFields_validators[of newUrl s] by simp_all
  have b: "newUrl = None \<or> newUrl = Some [] \<or> newUrl = Some (url s) \<longrightarrow>
        ?s1 = s\<lparr>etag := None, expires := None, lastFetchTimestamp := None\<rparr>"
    by (auto simp: resetFields_def Let_def)
  have c: "\<forall>u. newUrl = Some u \<and> u \<noteq> [] \<and> u \<noteq> url s \<longrightarrow>
        ?s1 = s\<lparr>etag := None, expires := None, lastFetchTimestamp := None,
                cachedValue := None, url := u\<rparr>"
    by (auto simp: resetFields_def Let_def)
  have d: "pollingTimeout s = None \<and> \<not> isObserved \<longrightarrow>
        reset cfg w isObserved newUrl s = (Inr (), ?s1, [])"
    using resetFields_frame[of newUrl s] by (simp add: reset_def Let_def)
  have e: "\<forall>res s' evs. reset cfg w isObserved newUrl s = (res, s', evs) \<longrightarrow>
        url s' = url ?s1
        \<and> refreshInterval s' = refreshInterval s
        \<and> fetchRefreshesWithoutInterval s' = fetchRefreshesWithoutInterval s"
    using reset_keeps_configuration by blast
  show ?thesis
    by (intro conjI, rule a1, rule a2, rule a3, rule b, rule c, rule d,
        rule reset_armed, rule reset_rearmed, rule reset_fetched, rule e)
qed

text \<open>
  Witness for C6: an idle fetcher reset to another URL, a fetcher with an armed timer,
  and an observed fetcher without timer.
\<close>

theorem reset_frame_witness:
  "reset demoConfig
        \<lparr>now = 2000, reply = respond 200 (Some ''v2'') None (Some ''abcd''), nowAfter = 2050\<rparr>
        False (Some ''https://api.example.com/other'') staleEngine
     = (Inr (),
        staleEngine\<lparr>etag := None, expires := None, lastFetchTimestamp := None,
                    cachedValue := None, url := ''https://api.example.com/other''\<rparr>, [])
   \<and> reset demoConfig
        \<lparr>now = 2000, reply = respond 200 (Some ''v2'') None (Some ''abcd''), nowAfter = 2050\<rparr>
        True None (staleEngine\<lparr>pollingTimeout := Some 50\<rparr>)
     = (Inr (),
        staleEngine\<lparr>etag := None, expires := None, lastFetchTimestamp := None,
                    pollingTimeout := Some 0\<rparr>, [])
   \<and> reset demoConfig
        \<lparr>now = 2000, reply = respond 200 (Some ''v2'') None (Some ''abcd''), nowAfter = 2050\<rparr>
        True None
        ((newFetcher ''https://api.example.com/data'' None True)
           \<lparr>etag := Some ''v1'', lastFetchTimestamp := Some 1000, cachedValue := Some (3::nat)\<rparr>)
      = (Inr (),
         (newFetcher ''https://api.example.com/data'' None True)
           \<lparr>etag := Some ''v2'', lastFetchTimestamp := Some 2050, cachedValue := Some 4\<rparr>,
         [Loading True, HttpGet ''https://api.example.com/data'' [], Loading False, DataNext 4])"
proof -
  let ?w = "\<lparr>now = 2000, reply = respond 200 (Some ''v2'') None (Some ''abcd''),
              nowAfter = 2050\<rparr> :: string world"
  let ?other = "Some ''https://api.example.com/other''"
  let ?armed = "staleEngine\<lparr>pollingTimeout := Some 50\<rparr>"
  let ?watched = "(newFetcher ''https://api.example.com/data'' None True)
           \<lparr>etag := Some ''v1'', lastFetchTimestamp := Some 1000, cachedValue := Some (3::nat)\<rparr>"
  txt \<open>An idle fetcher is pointed at another URL.\<close>
  have idle: "pollingTimeout staleEngine = None \<and> \<not> False"
    by (simp add: staleEngine_def newFetcher_def)
  have "pollingTimeout staleEngine = None \<and> \<not> False \<longrightarrow>
        reset demoConfig ?w False ?other staleEngine = (Inr (), resetFields ?other staleEngine, [])"
    using reset_frame[where newUrl = ?other and s = staleEngine and isObserved = False
        and cfg = demoConfig and w = ?w]
    by (elim conjE) assumption
  with idle have r1: "reset demoConfig ?w False ?other staleEngine
        = (Inr (), resetFields ?other staleEngine, [])"
    by (rule rev_mp)
  have "\<forall>u. ?other = Some u \<and> u \<noteq> [] \<and> u \<noteq> url staleEngine \<longrightarrow>
        resetFields ?other staleEngine
          = staleEngine\<lparr>etag := None, expires := None, lastFetchTimestamp := None,
                        cachedValue := None, url := u\<rparr>"
    using reset_frame[where newUrl = ?other and s = staleEngine and isObserved = False
        and cfg = demoConfig and w = ?w]
    by (elim conjE) assumption
  then have f1: "resetFields ?other staleEngine
          = staleEngine\<lparr>etag := None, expires := None, lastFetchTimestamp := None,
                        cachedValue := None, url := ''https://api.example.com/other''\<rparr>"
    by (simp add: staleEngine_def newFetcher_def)
  txt \<open>A fetcher with an armed timer is reset: the timer is re-armed at once.\<close>
  have timer: "pollingTimeout ?armed \<noteq> None
      \<and> (cachedValue (resetFields None ?armed) = None \<or> truthyInt (refreshInterval ?armed))"
    by (simp add: staleEngine_def newFetcher_def)
  have "pollingTimeout ?armed \<noteq> None
      \<and> (cachedValue (resetFields None ?armed) = None \<or> truthyInt (refreshInterval ?armed)) \<longrightarrow>
        reset demoConfig ?w True None ?armed
          = (Inr (), (resetFields None ?armed)\<lparr>pollingTimeout := Some 0\<rparr>, [])"
    using reset_frame[where newUrl = None and s = ?armed and isObserved = True
        and cfg = demoConfig and w = ?w]
    by (elim conjE) assumption
  with timer have r2: "reset demoConfig ?w True None ?armed
          = (Inr (), (resetFields None ?armed)\<lparr>pollingTimeout := Some 0\<rparr>, [])"
    by (rule rev_mp)
  have f2: "(resetFields None ?armed)\<lparr>pollingTimeout := Some 0\<rparr>
        = staleEngine\<lparr>etag := None, expires := None, lastFetchTimestamp := None,
                      pollingTimeout := Some 0\<rparr>"
    by (simp add: resetFields_def staleEngine_def newFetcher_def)
  txt \<open>An observed fetcher without timer is reset: it fetches.\<close>
  have seen: "pollingTimeout ?watched = None \<and> True"
    by (simp add: newFetcher_def)
  have "pollingTimeout ?watched = None \<and> True \<longrightarrow>
        reset demoConfig ?w True None ?watched
          = (case fetch demoConfig ?w (resetFields None ?watched) of
               (res, s2, evs) \<Rightarrow> ((case res of Inl e \<Rightarrow> Inl e | Inr v \<Rightarrow> Inr ()), s2, evs))"
    using reset_frame[where newUrl = None and s = ?watched and isObserved = True
        and cfg = demoConfig and w = ?w]
    by (elim conjE) assumption
  with seen have r3: "reset demoConfig ?w True None ?watched
          = (case fetch demoConfig ?w (resetFields None ?watched) of
               (res, s2, evs) \<Rightarrow> ((case res of Inl e \<Rightarrow> Inl e | Inr v \<Rightarrow> Inr ()), s2, evs))"
    by (rule rev_mp)
  have f3: "fetch demoConfig ?w (resetFields None ?watched)
     = (Inr (Some 4),
        (newFetcher ''https://api.example.com/data'' None True)
           \<lparr>etag := Some ''v2'', lastFetchTimestamp := Some 2050, cachedValue := Some 4\<rparr>,
        [Loading True, HttpGet ''https://api.example.com/data'' [], Loading False, DataNext 4])"
    by (simp add: run_defs resetFields_def)
  show ?thesis
    by (intro conjI) (simp only: r1 f1, simp only: r2 f2, simp add: r3 f3)
qed

text \<open>
  C6 as stated fails twice. The empty string is a URL different from the current one,
  yet \<open>reset('')\<close> keeps the cached value and the URL. And \<open>reset()\<close> on an observed
  fetcher without timer (no refresh interval, \<open>fetchRefreshesWithoutInterval\<close> set)
  fetches: after it the etag and lastFetchTimestamp are set again and, with the URL
  unchanged, the cached value has changed from 3 to 4.
\<close>

theorem reset_literal_counterexample:
  "Some [] \<noteq> Some (url staleEngine)
   \<and> reset demoConfig
        \<lparr>now = 2000, reply = respond 200 (Some ''v2'') None (Some ''abcd''), nowAfter = 2050\<rparr>
        False (Some []) staleEngine
      = (Inr (), staleEngine\<lparr>etag := None, expires := None, lastFetchTimestamp := None\<rparr>, [])
   \<and> cachedValue (staleEngine\<lparr>etag := None, expires := None, lastFetchTimestamp := None\<rparr>)
      = Some 3
   \<and> url (staleEngine\<lparr>etag := None, expires := None, lastFetchTimestamp := None\<rparr>)
      = url staleEngine
   \<and> reset demoConfig
        \<lparr>now = 2000, reply = respond 200 (Some ''v2'') None (Some ''abcd''), nowAfter = 2050\<rparr>
        True None
        ((newFetcher ''https://api.example.com/data'' None True)
           \<lparr>etag := Some ''v1'', lastFetchTimestamp := Some 1000, cachedValue := Some (3::nat)\<rparr>)
      = (Inr (),
         (newFetcher ''https://api.example.com/data'' None True)
           \<lparr>etag := Some ''v2'', lastFetchTimestamp := Some 2050, cachedValue := Some 4\<rparr>,
         [Loading True, HttpGet ''https://api.example.com/data'' [], Loading False, DataNext 4])"
  by (simp add: run_defs reset_def resetFields_def)

section \<open>Failures while polling (C7)\<close>

text \<open>
  C7 says that, while polling, a failure that is an HTTP response with a status other
  than 304 errors the change stream. In the run below the timer of an observed fetcher
  fires and the transport resolves with status 204. \<open>fetch\<close> rejects with its own
  "unexpected response 204" error; \<open>refreshData\<close> swallows it, because it is not an
  \<open>HttpErrorResponse\<close>: no error is sent to the change stream, the state is
  unchanged, and \<open>onPollingTimeout\<close> arms the next timer with 0 ms.
\<close>

theorem polling_swallows_unexpected_status:
  "fetch demoConfig
     \<lparr>now = 2000, reply = respond 204 None None None, nowAfter = 2050\<rparr>
     (staleEngine\<lparr>pollingTimeout := Some 100\<rparr>)
   = (Inl (UnexpectedResponse 204), staleEngine\<lparr>pollingTimeout := Some 100\<rparr>,
      [Loading True, HttpGet ''https://api.example.com/data'' [(''If-None-Match'', ''v1'')],
       Loading False])
   \<and> refreshData demoConfig
     \<lparr>now = 2000, reply = respond 204 None None None, nowAfter = 2050\<rparr>
     (staleEngine\<lparr>pollingTimeout := Some 100\<rparr>)
   = (staleEngine\<lparr>pollingTimeout := Some 100\<rparr>,
      [Loading True, HttpGet ''https://api.example.com/data'' [(''If-None-Match'', ''v1'')],
       Loading False])
   \<and> onPollingTimeout demoConfig
     \<lparr>now = 2000, reply = respond 204 None None None, nowAfter = 2050\<rparr>
     \<lparr>now = 2050, reply = respond 204 None None None, nowAfter = 2100\<rparr>
     True True (staleEngine\<lparr>pollingTimeout := Some 100\<rparr>)
   = (staleEngine\<lparr>pollingTimeout := Some 0\<rparr>,
      [Loading True, HttpGet ''https://api.example.com/data'' [(''If-None-Match'', ''v1'')],
       Loading False])"
  by (simp add: run_defs refreshData_def onPollingTimeout_def setupPollingTimeout_def)

section \<open>Polling and subscribers (C8)\<close>

text \<open>
  C8 says that the stop-polling callback is invoked whenever the subscriber count goes
  from one to zero, so that no timer exists while the stream is unobserved. In the run
  below one subscriber subscribes to a fresh subject and then unsubscribes. The
  subscription starts polling, which on a new fetcher arms a timer of 0 ms; the
  unsubscription empties the observer list and invokes nothing: the only callback of
  the whole run is the start of polling, and the timer stays armed while the stream is
  unobserved.
\<close>

theorem last_subscriber_leaves_timer_armed:
  "subscribe (None :: nat option) (1::nat) newSubject
     = (newSubject\<lparr>observers := [1]\<rparr>, [StartPolling])
   \<and> observed (newSubject\<lparr>observers := [1::nat]\<rparr>)
   \<and> teardown (1::nat) (newSubject\<lparr>observers := [1]\<rparr>)
     = (newSubject, ([] :: (nat, nat) signal list))
   \<and> \<not> observed (newSubject :: nat subject)
   \<and> performAll (None :: nat option) [Subscribe (1::nat), Teardown 1] newSubject
     = (newSubject, [StartPolling])
   \<and> setupPollingTimeout demoConfig
        \<lparr>now = 2000, reply = respond 200 (Some ''v1'') None (Some ''abc''), nowAfter = 2050\<rparr>
        (newFetcher ''https://api.example.com/data'' (Some 100) False)
     = ((newFetcher ''https://api.example.com/data'' (Some 100) False)\<lparr>pollingTimeout := Some 0\<rparr>,
        [])"
  by (simp add: subscribe_def teardown_def observed_def newSubject_def Let_def
        setupPollingTimeout_def getRefreshIntervalInMilliseconds_def newFetcher_def)

section \<open>Lookup by identifier (C9)\<close>

text \<open>
  C9 says that \<open>load(id)\<close> returns the item whose identifier equals \<open>id\<close> and absent
  when no item matches. In the runs below the latest emission is a one-item array with
  identifier \<open>x\<close>: \<open>load('x')\<close> returns the item, but \<open>load('toString')\<close>, which no
  item matches, returns the function inherited from \<open>Object.prototype\<close>, and
  \<open>load('__proto__')\<close> returns \<open>Object.prototype\<close>. With the items 1 and \<open>'1'\<close> in
  one array, \<open>load(1)\<close> returns the item whose identifier is the string. With an item
  whose identifier is \<open>__proto__\<close>, \<open>load('name')\<close> returns that item's name field.
\<close>

theorem load_reads_prototype_chain:
  "overlayLoad demoFields fst
     [Emitted \<lparr>dataEtag = ''a'', items = [(IdStr ''x'', ''X'')]\<rparr>] (IdStr ''toString'')
   = Some (Builtin ''toString'')
   \<and> find (\<lambda>item. fst item = IdStr ''toString'') (rev [(IdStr ''x'', ''X'')]) = None
   \<and> overlayLoad demoFields fst
     [Emitted \<lparr>dataEtag = ''a'', items = [(IdStr ''x'', ''X'')]\<rparr>] (IdStr ''x'')
   = Some (Entity (IdStr ''x'', ''X''))
   \<and> overlayLoad demoFields fst
     [Emitted \<lparr>dataEtag = ''a'', items = [(IdStr ''x'', ''X'')]\<rparr>] (IdStr ''__proto__'')
   = Some ObjectPrototype
   \<and> overlayLoad demoFields fst
     [Emitted \<lparr>dataEtag = ''b'', items = [(IdNum 1, ''A''), (IdStr ''1'', ''B'')]\<rparr>] (IdNum 1)
   = Some (Entity (IdStr ''1'', ''B''))
   \<and> overlayLoad demoFields fst
     [Emitted \<lparr>dataEtag = ''c'', items = [(IdStr ''__proto__'', ''P'')]\<rparr>] (IdStr ''name'')
   = Some (FieldOf (IdStr ''__proto__'', ''P'') ''name'')"
  by (simp add: overlay_defs)

section \<open>An undefined result (C10)\<close>

text \<open>
  C10. A new fetcher without refresh interval receives a 200 with no body and an
  Expires header for time 5000: \<open>fetch\<close> resolves to \<open>undefined\<close>, having stored the
  validators. A second \<open>fetch\<close> at time 2000, inside the window that header opened,
  resolves to \<open>undefined\<close> again, changes nothing and makes no call at all.
\<close>

theorem fetch_resolves_undefined:
  "fetch demoConfig
     \<lparr>now = 1000,
      reply = respond 200 (Some ''v1'') (Some ''Thu, 01 Jan 1970 00:00:05 GMT'') None,
      nowAfter = 1050\<rparr>
     (newFetcher ''https://api.example.com/data'' None False)
   = (Inr None,
      (newFetcher ''https://api.example.com/data'' None False)
        \<lparr>etag := Some ''v1'', lastFetchTimestamp := Some 1050, expires := Some (Num 5000)\<rparr>,
      [Loading True, HttpGet ''https://api.example.com/data'' [], Loading False])
   \<and> fetch demoConfig
     \<lparr>now = 2000,
      reply = respond 200 (Some ''v2'') None (Some ''abcd''),
      nowAfter = 2050\<rparr>
     ((newFetcher ''https://api.example.com/data'' None False)
        \<lparr>etag := Some ''v1'', lastFetchTimestamp := Some 1050, expires := Some (Num 5000)\<rparr>)
   = (Inr None,
      (newFetcher ''https://api.example.com/data'' None False)
        \<lparr>etag := Some ''v1'', lastFetchTimestamp := Some 1050, expires := Some (Num 5000)\<rparr>,
      [])"
  by (simp add: run_defs)

end
